theory Spec2Isabelle
  imports Main "HOL-Library.Word"
begin

section \<open>The synchronisation client of gst-sync-server (sync-client.c)\<close>

text \<open>
  The client drives a GStreamer pipeline from three callbacks: \<open>update_sync_info\<close>
  (a new descriptor from the control client), \<open>bus_cb\<close> (a message of the pipeline's
  bus) and \<open>update_pipeline\<close> (the application of the stored descriptor). The C code
  mutates the \<open>GstSyncClient\<close> object and calls into GLib and GStreamer; the model
  passes the object explicitly, records every library call in the order it is made, and
  takes what the library answers (the result of a state change, the clock's time, the
  result of a seek, of a position query) from an environment record.
\<close>

subsection \<open>Clock times\<close>

type_synonym GstClockTime = "64 word"

definition GST_SECOND :: GstClockTime where
  "GST_SECOND = 1000000000"

definition GST_MSECOND :: GstClockTime where
  "GST_MSECOND = 1000000"

definition GST_CLOCK_TIME_NONE :: GstClockTime where
  "GST_CLOCK_TIME_NONE = - 1"

definition DEFAULT_SEEK_TOLERANCE :: GstClockTime where
  "DEFAULT_SEEK_TOLERANCE = 50 * GST_MSECOND"

subsection \<open>Data\<close>

datatype SeekState = NEED_SEEK | IN_SEEK | DONE_SEEK

datatype GstState =
    GST_STATE_VOID_PENDING
  | GST_STATE_NULL
  | GST_STATE_READY
  | GST_STATE_PAUSED
  | GST_STATE_PLAYING

datatype GstStateChangeReturn =
    GST_STATE_CHANGE_FAILURE
  | GST_STATE_CHANGE_SUCCESS
  | GST_STATE_CHANGE_ASYNC
  | GST_STATE_CHANGE_NO_PREROLL

datatype GstSeekFlag = GST_SEEK_FLAG_FLUSH | GST_SEEK_FLAG_ACCURATE | GST_SEEK_FLAG_KEY_UNIT

datatype GstDebugLevel = GST_LEVEL_ERROR | GST_LEVEL_WARNING | GST_LEVEL_INFO | GST_LEVEL_DEBUG

text \<open>An object pointer is an address; \<open>None\<close> is the NULL pointer.\<close>

type_synonym obj = nat

text \<open>
  Modelled from the spec: the declaration of \<open>GstSyncServerInfo\<close> (sync-server-info.h)
  is not among the sources. The fields are the ones sync-client.c reads, with the
  types the spec's descriptor gives them; \<open>base_time\<close> is passed to
  \<open>set_base_time\<close> as a \<open>GstClockTime\<close>, an unsigned 64-bit count of nanoseconds.
\<close>

record GstSyncServerInfo =
  uri :: string
  base_time :: GstClockTime
  latency :: GstClockTime
  clock_addr :: string
  clock_port :: int

text \<open>
  The structure of an element message: its name and, when it has a boolean field
  called "synchronised", the value of that field.
\<close>

type_synonym GstStructure = "string \<times> bool option"

datatype GstMessage =
    GST_MESSAGE_ELEMENT "obj option" "GstStructure option"
  | GST_MESSAGE_STATE_CHANGED "obj option" GstState GstState
  | GST_MESSAGE_ASYNC_DONE "obj option"
  | GST_MESSAGE_EOS "obj option"
  | GST_MESSAGE_OTHER "obj option"

text \<open>The library calls the client makes, as they appear in the source.\<close>

datatype call =
    ObjectSetUri "obj option" string
  | PipelineSetLatency "obj option" GstClockTime
  | ElementSetState "obj option" GstState
  | ElementSetStartTime "obj option" GstClockTime
  | ElementSetBaseTime "obj option" GstClockTime
  | ElementSeekSimple "obj option" "GstSeekFlag set" GstClockTime
  | ElementQueryPosition "obj option"
  | ClockGetTime "obj option"
  | ClockWaitForSync "obj option" GstClockTime
  | AtomicIntSet SeekState
  | MutexInit
  | MutexLock
  | MutexUnlock
  | MutexClear
  | DebugLog GstDebugLevel string
  | NetClientClockNew string int
  | PipelineUseClock "obj option" "obj option"
  | PipelineGetBus "obj option"
  | ObjectSetBus "obj option"
  | BusAddWatch
  | BusEnableSyncMessageEmission
  | SignalConnect string
  | BusUnref
  | ObjectUnref obj
  | InfoFree GstSyncServerInfo
  | GFree "string option"
  | ObjectNew string int
  | SignalEmit "obj option" string
  | ParentDispose

text \<open>
  \<open>struct _GstSyncClient\<close>, followed by what the model keeps of the world around it:
  the start time and base time of the pipeline element, the subscriptions on the
  pipeline's bus, and the calls made so far.
\<close>

record GstSyncClient =
  control_addr :: "string option"
  control_port :: int
  info :: "GstSyncServerInfo option"
  pipeline :: "obj option"
  clock :: "obj option"
  client :: "obj option"
  synchronised :: bool
  seek_state :: SeekState
  elem_start_time :: GstClockTime
  elem_base_time :: GstClockTime
  bus_watch :: bool
  bus_sync_emission :: bool
  bus_sync_handlers :: "string list"
  calls :: "call list"

text \<open>
  What the libraries answer during one callback. \<open>env_is_live_uninit\<close> is the
  content of the local variable \<open>is_live\<close> of \<open>update_pipeline\<close> before anything is
  assigned to it.
\<close>

record env =
  env_paused_ret :: GstStateChangeReturn
  env_is_live_uninit :: bool
  env_clock_now :: GstClockTime
  env_seek_ok :: bool
  env_position :: "GstClockTime option"
  env_wait_sync_ok :: bool
  env_new_clock :: "obj option"
  env_new_client :: "obj option"
  env_start_ret :: bool

datatype error = NullInfo

subsection \<open>Library calls\<close>

definition emit :: "call \<Rightarrow> GstSyncClient \<Rightarrow> GstSyncClient" where
  "emit x c = c\<lparr>calls := calls c @ [x]\<rparr>"

definition g_atomic_int_set :: "SeekState \<Rightarrow> GstSyncClient \<Rightarrow> GstSyncClient" where
  "g_atomic_int_set s c = emit (AtomicIntSet s) (c\<lparr>seek_state := s\<rparr>)"

text \<open>
  The setters of GStreamer check their element argument and do nothing on NULL;
  the functions with a result return the failure value then.
\<close>

definition gst_element_set_start_time :: "GstClockTime \<Rightarrow> GstSyncClient \<Rightarrow> GstSyncClient" where
  "gst_element_set_start_time t c =
     emit (ElementSetStartTime (pipeline c) t)
       (if pipeline c = None then c else c\<lparr>elem_start_time := t\<rparr>)"

definition gst_element_set_base_time :: "GstClockTime \<Rightarrow> GstSyncClient \<Rightarrow> GstSyncClient" where
  "gst_element_set_base_time t c =
     emit (ElementSetBaseTime (pipeline c) t)
       (if pipeline c = None then c else c\<lparr>elem_base_time := t\<rparr>)"

definition gst_element_set_state :: "GstState \<Rightarrow> GstSyncClient \<Rightarrow> GstSyncClient" where
  "gst_element_set_state s c = emit (ElementSetState (pipeline c) s) c"

definition paused_result :: "env \<Rightarrow> GstSyncClient \<Rightarrow> GstStateChangeReturn" where
  "paused_result e c =
     (if pipeline c = None then GST_STATE_CHANGE_FAILURE else env_paused_ret e)"

definition seek_result :: "env \<Rightarrow> GstSyncClient \<Rightarrow> bool" where
  "seek_result e c = (pipeline c \<noteq> None \<and> env_seek_ok e)"

definition position_result :: "env \<Rightarrow> GstSyncClient \<Rightarrow> GstClockTime option" where
  "position_result e c = (if pipeline c = None then None else env_position e)"

definition gst_structure_has_name :: "GstStructure option \<Rightarrow> string \<Rightarrow> bool" where
  "gst_structure_has_name st n = (case st of None \<Rightarrow> False | Some (m, b) \<Rightarrow> m = n)"

definition gst_structure_get_boolean :: "GstStructure option \<Rightarrow> bool \<Rightarrow> bool" where
  "gst_structure_get_boolean st old =
     (case st of None \<Rightarrow> old | Some (m, None) \<Rightarrow> old | Some (m, Some b) \<Rightarrow> b)"

subsection \<open>set_base_time\<close>

definition set_base_time :: "GstClockTime \<Rightarrow> GstSyncClient \<Rightarrow> GstSyncClient" where
  "set_base_time t c =
     gst_element_set_base_time t (gst_element_set_start_time GST_CLOCK_TIME_NONE c)"

subsection \<open>update_pipeline\<close>

text \<open>
  The switch on the result of the PAUSED request assigns \<open>is_live\<close> in two of its
  three branches; the failure branch leaves the switch with \<open>break\<close> and the variable
  as it was. The write of \<open>seek_state\<close> and the PLAYING request follow the switch.
\<close>

definition classify :: "env \<Rightarrow> GstSyncClient \<Rightarrow> GstSyncClient \<times> bool" where
  "classify e c =
     (case paused_result e c of
        GST_STATE_CHANGE_FAILURE \<Rightarrow>
          (emit (DebugLog GST_LEVEL_WARNING ''Could not play uri'') c, env_is_live_uninit e)
      | GST_STATE_CHANGE_NO_PREROLL \<Rightarrow>
          (emit (DebugLog GST_LEVEL_DEBUG ''Detected live pipeline'') c, True)
      | GST_STATE_CHANGE_SUCCESS \<Rightarrow> (c, False)
      | GST_STATE_CHANGE_ASYNC \<Rightarrow> (c, False))"

definition update_pipeline :: "env \<Rightarrow> GstSyncClient \<Rightarrow> error + GstSyncClient" where
  "update_pipeline e c =
     (case info c of
        None \<Rightarrow> Inl NullInfo
      | Some i \<Rightarrow>
          (let c1 = emit (ObjectSetUri (pipeline c) (uri i)) c;
               c2 = emit (PipelineSetLatency (pipeline c) (latency i)) c1;
               c3 = gst_element_set_state GST_STATE_PAUSED c2;
               c4 = fst (classify e c3);
               is_live = snd (classify e c3);
               c5 = g_atomic_int_set (if is_live then DONE_SEEK else NEED_SEEK) c4
           in Inr (gst_element_set_state GST_STATE_PLAYING c5)))"

subsection \<open>bus_cb\<close>

text \<open>
  One function per case of the switch on the message's type. The C function always
  returns TRUE (the watch stays installed); the model returns the client after the
  call, or the error when the handler dereferences \<open>self->info\<close> while it is NULL.
\<close>

definition locked_update_pipeline :: "env \<Rightarrow> GstSyncClient \<Rightarrow> error + GstSyncClient" where
  "locked_update_pipeline e c =
     (case update_pipeline e (emit MutexLock c) of
        Inl x \<Rightarrow> Inl x
      | Inr c' \<Rightarrow> Inr (emit MutexUnlock c'))"

definition on_element :: "env \<Rightarrow> GstStructure option \<Rightarrow> GstSyncClient \<Rightarrow> error + GstSyncClient" where
  "on_element e st c =
     (if synchronised c then Inr c
      else if \<not> gst_structure_has_name st ''gst-netclock-statistics'' then Inr c
      else
        (let c1 = c\<lparr>synchronised := gst_structure_get_boolean st (synchronised c)\<rparr>
         in if \<not> synchronised c1 then Inr c1
            else
              (let c2 = emit (ClockWaitForSync (clock c1) (10 * GST_SECOND)) c1
               in if \<not> env_wait_sync_ok e
                  then Inr ((emit (DebugLog GST_LEVEL_ERROR ''Could not synchronise clock'') c2)
                              \<lparr>synchronised := False\<rparr>)
                  else locked_update_pipeline e
                         (emit (DebugLog GST_LEVEL_INFO
                            ''Clock is synchronised, starting playback'') c2))))"

definition seek_or_set_base_time :: "env \<Rightarrow> GstSyncClient \<Rightarrow> error + GstSyncClient" where
  "seek_or_set_base_time e c =
     (let now = env_clock_now e;
          c1 = emit (ClockGetTime (clock c)) c;
          c2 = g_atomic_int_set IN_SEEK c1;
          c3 = emit MutexLock c2
      in case info c3 of
           None \<Rightarrow> Inl NullInfo
         | Some i \<Rightarrow>
             if now - base_time i > DEFAULT_SEEK_TOLERANCE then
               (let c4 = emit (DebugLog GST_LEVEL_INFO ''Seeking: %lu'') c3;
                    c5 = emit (ElementSeekSimple (pipeline c4)
                                {GST_SEEK_FLAG_ACCURATE, GST_SEEK_FLAG_FLUSH}
                                (now - base_time i + DEFAULT_SEEK_TOLERANCE)) c4
                in if \<not> seek_result e c5 then
                     (let c6 = emit (DebugLog GST_LEVEL_WARNING ''Could not perform seek'') c5;
                          c7 = set_base_time (base_time i) c6;
                          c8 = g_atomic_int_set DONE_SEEK c7
                      in Inr (emit MutexUnlock c8))
                   else Inr (emit MutexUnlock c5))
             else
               (let c4 = set_base_time (base_time i) c3;
                    c5 = g_atomic_int_set DONE_SEEK c4
                in Inr (emit MutexUnlock c5)))"

definition on_state_changed ::
    "env \<Rightarrow> obj option \<Rightarrow> GstState \<Rightarrow> GstState \<Rightarrow> GstSyncClient \<Rightarrow> error + GstSyncClient" where
  "on_state_changed e src old_state new_state c =
     (if seek_state c \<noteq> NEED_SEEK \<or> src \<noteq> pipeline c then Inr c
      else if old_state \<noteq> GST_STATE_PAUSED \<and> new_state \<noteq> GST_STATE_PLAYING then Inr c
      else seek_or_set_base_time e c)"

definition on_async_done :: "env \<Rightarrow> GstSyncClient \<Rightarrow> error + GstSyncClient" where
  "on_async_done e c =
     (if seek_state c \<noteq> IN_SEEK then Inr c
      else
        (let c1 = emit (ElementQueryPosition (pipeline c)) c
         in case position_result e c1 of
              None \<Rightarrow> Inr (g_atomic_int_set DONE_SEEK c1)
            | Some pos \<Rightarrow>
                (let c2 = emit (DebugLog GST_LEVEL_INFO ''Adding offset: %lu'') c1;
                     c3 = emit MutexLock c2
                 in case info c3 of
                      None \<Rightarrow> Inl NullInfo
                    | Some i \<Rightarrow>
                        (let c4 = set_base_time (base_time i + pos) c3;
                             c5 = emit MutexUnlock c4
                         in Inr (g_atomic_int_set DONE_SEEK c5)))))"

definition on_eos :: "obj option \<Rightarrow> GstSyncClient \<Rightarrow> GstSyncClient" where
  "on_eos src c = (if src = pipeline c then gst_element_set_state GST_STATE_NULL c else c)"

fun bus_cb :: "env \<Rightarrow> GstMessage \<Rightarrow> GstSyncClient \<Rightarrow> error + GstSyncClient" where
  "bus_cb e (GST_MESSAGE_ELEMENT src st) c = on_element e st c"
| "bus_cb e (GST_MESSAGE_STATE_CHANGED src old_state new_state) c =
     on_state_changed e src old_state new_state c"
| "bus_cb e (GST_MESSAGE_ASYNC_DONE src) c = on_async_done e c"
| "bus_cb e (GST_MESSAGE_EOS src) c = Inr (on_eos src c)"
| "bus_cb e (GST_MESSAGE_OTHER src) c = Inr c"

text \<open>
  The bus watch installed by \<open>update_sync_info\<close> hands the queued messages to
  \<open>bus_cb\<close> one after the other; a crash of the handler ends the run.
\<close>

fun bus_run :: "(env \<times> GstMessage) list \<Rightarrow> GstSyncClient \<Rightarrow> error + GstSyncClient" where
  "bus_run [] c = Inr c"
| "bus_run ((e, m) # ms) c =
     (case bus_cb e m c of Inl x \<Rightarrow> Inl x | Inr c' \<Rightarrow> bus_run ms c')"

fun is_async_done :: "GstMessage \<Rightarrow> bool" where
  "is_async_done (GST_MESSAGE_ASYNC_DONE src) = True"
| "is_async_done m = False"

fun is_element :: "GstMessage \<Rightarrow> bool" where
  "is_element (GST_MESSAGE_ELEMENT src st) = True"
| "is_element m = False"

fun is_seek :: "call \<Rightarrow> bool" where
  "is_seek (ElementSeekSimple p fl t) = True"
| "is_seek x = False"

fun is_set_base_time :: "call \<Rightarrow> bool" where
  "is_set_base_time (ElementSetBaseTime p t) = True"
| "is_set_base_time x = False"

fun is_set_state :: "call \<Rightarrow> bool" where
  "is_set_state (ElementSetState p s) = True"
| "is_set_state x = False"

subsection \<open>update_sync_info\<close>

text \<open>
  The first descriptor creates the network clock and subscribes \<open>bus_cb\<close> to the
  pipeline's bus twice: as the bus watch, which receives every message from the main
  loop, and as a handler of the detailed signal "sync-message::async-done", which the
  bus emits from the posting thread once sync-message emission is enabled. A pipeline
  pointer that is NULL has no bus, and the calls on it do nothing.
\<close>

definition first_sync_info :: "env \<Rightarrow> GstSyncServerInfo \<Rightarrow> GstSyncClient \<Rightarrow> GstSyncClient" where
  "first_sync_info e new c =
     (let c1 = c\<lparr>info := Some new\<rparr>;
          c2 = (emit (NetClientClockNew (clock_addr new) (clock_port new)) c1)
                 \<lparr>clock := env_new_clock e\<rparr>;
          c3 = emit (PipelineUseClock (pipeline c2) (clock c2)) c2;
          c4 = emit (PipelineGetBus (pipeline c3)) c3;
          c5 = emit (ObjectSetBus (clock c4)) c4;
          c6 = emit BusAddWatch (if pipeline c5 = None then c5 else c5\<lparr>bus_watch := True\<rparr>);
          c7 = emit BusEnableSyncMessageEmission
                 (if pipeline c6 = None then c6 else c6\<lparr>bus_sync_emission := True\<rparr>);
          c8 = emit (SignalConnect ''sync-message::async-done'')
                 (if pipeline c7 = None then c7
                  else c7\<lparr>bus_sync_handlers :=
                            bus_sync_handlers c7 @ [''sync-message::async-done'']\<rparr>)
      in emit BusUnref c8)"

definition update_sync_info :: "env \<Rightarrow> GstSyncServerInfo \<Rightarrow> GstSyncClient \<Rightarrow> error + GstSyncClient" where
  "update_sync_info e new c =
     (let c0 = emit MutexLock c
      in case info c0 of
           None \<Rightarrow> Inr (emit MutexUnlock (first_sync_info e new c0))
         | Some old \<Rightarrow>
             if uri old \<noteq> uri new \<or> base_time old \<noteq> base_time new then
               (let c1 = gst_element_set_state GST_STATE_NULL c0;
                    c2 = emit (InfoFree old) c1;
                    c3 = c2\<lparr>info := Some new\<rparr>
                in case update_pipeline e c3 of
                     Inl x \<Rightarrow> Inl x
                   | Inr c4 \<Rightarrow> Inr (emit MutexUnlock c4))
             else Inr (emit MutexUnlock c0))"

subsection \<open>Delivery of bus messages\<close>

text \<open>
  The name of a message's type, which is the detail of the bus's "sync-message"
  signal. \<open>GST_MESSAGE_OTHER\<close> stands for the types \<open>bus_cb\<close> does not
  distinguish; none of them is named "async-done".
\<close>

definition gst_message_type_get_name :: "GstMessage \<Rightarrow> string" where
  "gst_message_type_get_name m =
     (case m of
        GST_MESSAGE_ELEMENT src st \<Rightarrow> ''element''
      | GST_MESSAGE_STATE_CHANGED src a b \<Rightarrow> ''state-changed''
      | GST_MESSAGE_ASYNC_DONE src \<Rightarrow> ''async-done''
      | GST_MESSAGE_EOS src \<Rightarrow> ''eos''
      | GST_MESSAGE_OTHER src \<Rightarrow> ''unknown'')"

text \<open>
  A message reaches \<open>bus_cb\<close> synchronously, from the thread that posts it, when
  sync-message emission is enabled and \<open>bus_cb\<close> is connected to "sync-message" or to
  "sync-message::" followed by the name of the message's type. It reaches \<open>bus_cb\<close>
  asynchronously, from the main loop, when the bus watch is installed.
\<close>

definition delivered_sync :: "GstSyncClient \<Rightarrow> GstMessage \<Rightarrow> bool" where
  "delivered_sync c m =
     (bus_sync_emission c \<and>
      (''sync-message'' \<in> set (bus_sync_handlers c) \<or>
       (''sync-message::'' @ gst_message_type_get_name m) \<in> set (bus_sync_handlers c)))"

definition delivered_async :: "GstSyncClient \<Rightarrow> GstMessage \<Rightarrow> bool" where
  "delivered_async c m = bus_watch c"

subsection \<open>Construction, start, stop, dispose\<close>

definition gst_sync_client_init :: GstSyncClient where
  "gst_sync_client_init =
     \<lparr>control_addr = None, control_port = 0, info = None, pipeline = None, clock = None,
      client = None, synchronised = False, seek_state = NEED_SEEK,
      elem_start_time = 0, elem_base_time = 0,
      bus_watch = False, bus_sync_emission = False, bus_sync_handlers = [],
      calls = [MutexInit, AtomicIntSet NEED_SEEK]\<rparr>"

definition gst_sync_client_new :: "string option \<Rightarrow> int \<Rightarrow> obj option \<Rightarrow> GstSyncClient" where
  "gst_sync_client_new addr port p =
     gst_sync_client_init\<lparr>control_addr := addr, control_port := port, pipeline := p\<rparr>"

definition gst_sync_client_start :: "env \<Rightarrow> GstSyncClient \<Rightarrow> bool \<times> GstSyncClient" where
  "gst_sync_client_start e c =
     (let c1 = (emit (ObjectNew (case control_addr c of None \<Rightarrow> [] | Some a \<Rightarrow> a)
                        (control_port c)) c)\<lparr>client := env_new_client e\<rparr>;
          c2 = emit (SignalConnect ''notify::sync-info'') c1;
          c3 = emit (SignalEmit (client c2) ''start'') c2
      in (env_start_ret e, c3))"

definition gst_sync_client_stop :: "GstSyncClient \<Rightarrow> GstSyncClient" where
  "gst_sync_client_stop c = emit (SignalEmit (client c) ''stop'') c"

definition gst_sync_client_dispose :: "GstSyncClient \<Rightarrow> GstSyncClient" where
  "gst_sync_client_dispose c =
     (let c1 = (case pipeline c of None \<Rightarrow> c
                | Some p \<Rightarrow> (emit (ObjectUnref p) c)\<lparr>pipeline := None\<rparr>);
          c2 = (case clock c1 of None \<Rightarrow> c1
                | Some k \<Rightarrow> (emit (ObjectUnref k) c1)\<lparr>clock := None\<rparr>);
          c3 = (emit (GFree (control_addr c2)) c2)\<lparr>control_addr := None\<rparr>;
          c4 = (case info c3 of None \<Rightarrow> c3
                | Some i \<Rightarrow> (emit (InfoFree i) c3)\<lparr>info := None\<rparr>);
          c5 = emit MutexClear c4;
          c6 = (case client c5 of None \<Rightarrow> c5
                | Some k \<Rightarrow> (emit (ObjectUnref k) c5)\<lparr>client := None\<rparr>)
      in emit ParentDispose c6)"

subsection \<open>The scenarios of the specification\<close>

text \<open>
  A client constructed on pipeline 1 that has received the descriptor with base time
  1900 ms, holds clock 2 and control client 3, and whose clock is synchronised.
\<close>

definition scenario_info :: GstSyncServerInfo where
  "scenario_info =
     \<lparr>uri = ''http://example.org/a.ogg'', base_time = 1900 * GST_MSECOND, latency = 0,
      clock_addr = ''127.0.0.1'', clock_port = 3695\<rparr>"

definition scenario_client :: GstSyncClient where
  "scenario_client =
     (gst_sync_client_new (Some ''127.0.0.1'') 3695 (Some 1))
       \<lparr>info := Some scenario_info, clock := Some 2, client := Some 3, synchronised := True\<rparr>"

definition scenario_env :: "GstClockTime \<Rightarrow> bool \<Rightarrow> GstClockTime option \<Rightarrow> env" where
  "scenario_env now ok pos =
     \<lparr>env_paused_ret = GST_STATE_CHANGE_ASYNC, env_is_live_uninit = False,
      env_clock_now = now, env_seek_ok = ok, env_position = pos, env_wait_sync_ok = True,
      env_new_clock = Some 2, env_new_client = Some 3, env_start_ret = True\<rparr>"

definition scenario_7_queue :: "(env \<times> GstMessage) list" where
  "scenario_7_queue =
     [(scenario_env (2060 * GST_MSECOND) True None,
         GST_MESSAGE_STATE_CHANGED (Some 1) GST_STATE_PAUSED GST_STATE_PLAYING),
      (scenario_env (2070 * GST_MSECOND) True None,
         GST_MESSAGE_ELEMENT (Some 2) (Some (''gst-netclock-statistics'', Some True))),
      (scenario_env (2080 * GST_MSECOND) True None, GST_MESSAGE_OTHER (Some 4))]"

definition changed_info :: GstSyncServerInfo where
  "changed_info = scenario_info\<lparr>uri := ''http://example.org/b.ogg''\<rparr>"

definition same_info :: GstSyncServerInfo where
  "same_info = scenario_info\<lparr>latency := 300 * GST_MSECOND, clock_port := 3696\<rparr>"

definition failing_env :: env where
  "failing_env = (scenario_env 0 True None)\<lparr>env_paused_ret := GST_STATE_CHANGE_FAILURE\<rparr>"

definition statistics_message :: GstMessage where
  "statistics_message =
     GST_MESSAGE_ELEMENT (Some 2) (Some (''gst-netclock-statistics'', Some True))"

fun is_unref :: "call \<Rightarrow> bool" where
  "is_unref (ObjectUnref k) = True"
| "is_unref x = False"

text \<open>
  The scenario client with a descriptor whose base time lies 20 ms below \<open>2 ^ 64\<close>.
\<close>

definition behind_client :: GstSyncClient where
  "behind_client =
     scenario_client\<lparr>info := Some (scenario_info\<lparr>base_time := - (20 * GST_MSECOND)\<rparr>)\<rparr>"

section \<open>Properties\<close>

lemmas prims =
  emit_def g_atomic_int_set_def gst_element_set_start_time_def gst_element_set_base_time_def
  gst_element_set_state_def set_base_time_def seek_result_def position_result_def
  paused_result_def

lemmas scen =
  scenario_info_def scenario_client_def scenario_env_def gst_sync_client_new_def
  gst_sync_client_init_def GST_MSECOND_def DEFAULT_SEEK_TOLERANCE_def GST_CLOCK_TIME_NONE_def

text \<open>
  Outside NEED_SEEK, a message that is not async-done leaves the seek state as it
  is, unless it is an element message that reaches a client whose clock is not yet
  synchronised (which may apply the descriptor again).
\<close>

lemma bus_cb_keeps_seek_state:
  assumes "seek_state c \<noteq> NEED_SEEK" and "\<not> is_async_done m"
    and "synchronised c \<or> \<not> is_element m"
  shows "\<exists>c'. bus_cb e m c = Inr c' \<and> seek_state c' = seek_state c
           \<and> synchronised c' = synchronised c"
  using assms
  by (cases m) (auto simp add: on_element_def on_state_changed_def on_eos_def prims)

lemma bus_run_keeps_seek_state:
  assumes "seek_state c \<noteq> NEED_SEEK"
    and "list_all (\<lambda>em. \<not> is_async_done (snd em)) ms"
    and "synchronised c \<or> list_all (\<lambda>em. \<not> is_element (snd em)) ms"
  shows "\<exists>c'. bus_run ms c = Inr c' \<and> seek_state c' = seek_state c"
  using assms
proof (induction ms arbitrary: c)
  case Nil
  then show ?case by simp
next
  case (Cons em ms)
  obtain e m where em: "em = (e, m)" by (cases em)
  from Cons.prems em obtain c1 where
    c1: "bus_cb e m c = Inr c1" "seek_state c1 = seek_state c" "synchronised c1 = synchronised c"
    using bus_cb_keeps_seek_state [of c m e] by auto
  have "\<exists>c'. bus_run ms c1 = Inr c' \<and> seek_state c' = seek_state c1"
    using Cons.prems c1 by (intro Cons.IH) auto
  with c1 em show ?case by auto
qed

text \<open>
  C1. When the state-changed handler passes its guards in NEED_SEEK and the drift
  \<open>now - base_time\<close> is at most the tolerance, it clears the start time of the pipeline,
  sets its base time to the descriptor's base time, issues no seek and leaves the seek
  state at DONE_SEEK.
\<close>

theorem C1_drift_within_tolerance:
  assumes "seek_state c = NEED_SEEK"
    and "pipeline c = Some p"
    and "old_state = GST_STATE_PAUSED \<or> new_state = GST_STATE_PLAYING"
    and "info c = Some d"
    and "env_clock_now e - base_time d \<le> DEFAULT_SEEK_TOLERANCE"
  shows "\<exists>c'. bus_cb e (GST_MESSAGE_STATE_CHANGED (Some p) old_state new_state) c = Inr c'
           \<and> elem_base_time c' = base_time d
           \<and> elem_start_time c' = GST_CLOCK_TIME_NONE
           \<and> seek_state c' = DONE_SEEK
           \<and> filter is_seek (calls c') = filter is_seek (calls c)
           \<and> calls c' = calls c @
               [ClockGetTime (clock c), AtomicIntSet IN_SEEK, MutexLock,
                ElementSetStartTime (Some p) GST_CLOCK_TIME_NONE,
                ElementSetBaseTime (Some p) (base_time d),
                AtomicIntSet DONE_SEEK, MutexUnlock]"
  using assms
  by (auto simp add: on_state_changed_def seek_or_set_base_time_def Let_def prims
      simp flip: not_le)

theorem C1_witness:
  "\<exists>c'. bus_cb (scenario_env (1920 * GST_MSECOND) True None)
           (GST_MESSAGE_STATE_CHANGED (Some 1) GST_STATE_PAUSED GST_STATE_PLAYING)
           scenario_client = Inr c'
        \<and> elem_base_time c' = 1900 * GST_MSECOND
        \<and> seek_state c' = DONE_SEEK
        \<and> filter is_seek (calls c') = []"
  using C1_drift_within_tolerance [of scenario_client 1 GST_STATE_PAUSED GST_STATE_PLAYING
      scenario_info "scenario_env (1920 * GST_MSECOND) True None"]
  by (auto simp add: scen)

text \<open>
  C2. When the state-changed handler passes its guards in NEED_SEEK and the drift
  exceeds the tolerance, it writes IN_SEEK, then issues one accurate, flushing seek to
  \<open>drift + tolerance\<close>. When the seek is accepted the handler returns in IN_SEEK, and
  the seek state stays IN_SEEK over every later run of bus messages without an
  async-done message (and without an element message, unless the clock is already
  synchronised); when it is rejected the handler returns in DONE_SEEK.
\<close>

theorem C2_drift_beyond_tolerance:
  assumes "seek_state c = NEED_SEEK"
    and "old_state = GST_STATE_PAUSED \<or> new_state = GST_STATE_PLAYING"
    and "info c = Some d"
    and "DEFAULT_SEEK_TOLERANCE < env_clock_now e - base_time d"
  shows "\<exists>c' rest. bus_cb e (GST_MESSAGE_STATE_CHANGED (pipeline c) old_state new_state) c = Inr c'
           \<and> calls c' = calls c @
               [ClockGetTime (clock c), AtomicIntSet IN_SEEK, MutexLock,
                DebugLog GST_LEVEL_INFO ''Seeking: %lu'',
                ElementSeekSimple (pipeline c) {GST_SEEK_FLAG_ACCURATE, GST_SEEK_FLAG_FLUSH}
                  (env_clock_now e - base_time d + DEFAULT_SEEK_TOLERANCE)] @ rest
           \<and> filter is_seek rest = []
           \<and> (if seek_result e c
               then rest = [MutexUnlock] \<and> seek_state c' = IN_SEEK
                 \<and> (\<forall>ms. list_all (\<lambda>em. \<not> is_async_done (snd em)) ms
                        \<and> (synchronised c \<or> list_all (\<lambda>em. \<not> is_element (snd em)) ms)
                      \<longrightarrow> (\<exists>c''. bus_run ms c' = Inr c'' \<and> seek_state c'' = IN_SEEK))
               else seek_state c' = DONE_SEEK)"
proof (cases "seek_result e c")
  case True
  define c' where "c' = c\<lparr>seek_state := IN_SEEK, calls := calls c @
               [ClockGetTime (clock c), AtomicIntSet IN_SEEK, MutexLock,
                DebugLog GST_LEVEL_INFO ''Seeking: %lu'',
                ElementSeekSimple (pipeline c) {GST_SEEK_FLAG_ACCURATE, GST_SEEK_FLAG_FLUSH}
                  (env_clock_now e - base_time d + DEFAULT_SEEK_TOLERANCE), MutexUnlock]\<rparr>"
  have run: "bus_cb e (GST_MESSAGE_STATE_CHANGED (pipeline c) old_state new_state) c = Inr c'"
    using assms True
    by (auto simp add: on_state_changed_def seek_or_set_base_time_def Let_def prims c'_def)
  have keep: "\<exists>c''. bus_run ms c' = Inr c'' \<and> seek_state c'' = IN_SEEK"
    if "list_all (\<lambda>em. \<not> is_async_done (snd em)) ms"
      and "synchronised c \<or> list_all (\<lambda>em. \<not> is_element (snd em)) ms" for ms
    using bus_run_keeps_seek_state [of c' ms] that by (simp add: c'_def)
  show ?thesis
    using run keep True by (simp add: c'_def)
next
  case False
  then show ?thesis
    using assms
    by (auto simp add: on_state_changed_def seek_or_set_base_time_def Let_def prims)
qed

theorem C2_witness:
  "\<exists>c'. bus_cb (scenario_env (2050 * GST_MSECOND) True None)
           (GST_MESSAGE_STATE_CHANGED (Some 1) GST_STATE_PAUSED GST_STATE_PLAYING)
           scenario_client = Inr c'
        \<and> calls c' = calls scenario_client @
            [ClockGetTime (Some 2), AtomicIntSet IN_SEEK, MutexLock,
             DebugLog GST_LEVEL_INFO ''Seeking: %lu'',
             ElementSeekSimple (Some 1) {GST_SEEK_FLAG_ACCURATE, GST_SEEK_FLAG_FLUSH}
               (200 * GST_MSECOND),
             MutexUnlock]
        \<and> seek_state c' = IN_SEEK
        \<and> (\<exists>c''. bus_run scenario_7_queue c' = Inr c'' \<and> seek_state c'' = IN_SEEK)"
proof -
  let ?e = "scenario_env (2050 * GST_MSECOND) True None"
  have h1: "seek_state scenario_client = NEED_SEEK" by (simp add: scen)
  have h2: "GST_STATE_PAUSED = GST_STATE_PAUSED \<or> GST_STATE_PLAYING = GST_STATE_PLAYING"
    by simp
  have h3: "info scenario_client = Some scenario_info" by (simp add: scen)
  have h4: "DEFAULT_SEEK_TOLERANCE < env_clock_now ?e - base_time scenario_info"
    by (simp add: scen)
  have p: "pipeline scenario_client = Some 1" by (simp add: scen)
  have sr: "seek_result ?e scenario_client" by (simp add: scen seek_result_def)
  have q1: "list_all (\<lambda>em. \<not> is_async_done (snd em)) scenario_7_queue"
    by (simp add: scenario_7_queue_def)
  have q2: "synchronised scenario_client" by (simp add: scen)
  from C2_drift_beyond_tolerance [OF h1 h2 h3 h4] sr p q1 q2
  show ?thesis
    by (auto simp add: scen)
qed

text \<open>
  C3. An async-done message that arrives in IN_SEEK always ends in DONE_SEEK. When the
  position query gives a position, the start time of the pipeline is cleared and its
  base time becomes the descriptor's base time plus that position; when the query gives
  none, neither the base time nor the start time is touched.
\<close>

theorem C3_async_done:
  assumes "seek_state c = IN_SEEK"
    and "info c = Some d"
  shows "\<exists>c'. bus_cb e (GST_MESSAGE_ASYNC_DONE src) c = Inr c'
           \<and> seek_state c' = DONE_SEEK
           \<and> (case position_result e c of
                 Some pos \<Rightarrow>
                   elem_base_time c' = base_time d + pos
                   \<and> elem_start_time c' = GST_CLOCK_TIME_NONE
                   \<and> calls c' = calls c @
                       [ElementQueryPosition (pipeline c),
                        DebugLog GST_LEVEL_INFO ''Adding offset: %lu'', MutexLock,
                        ElementSetStartTime (pipeline c) GST_CLOCK_TIME_NONE,
                        ElementSetBaseTime (pipeline c) (base_time d + pos),
                        MutexUnlock, AtomicIntSet DONE_SEEK]
               | None \<Rightarrow>
                   elem_base_time c' = elem_base_time c
                   \<and> elem_start_time c' = elem_start_time c
                   \<and> calls c' = calls c @
                       [ElementQueryPosition (pipeline c), AtomicIntSet DONE_SEEK])"
  using assms
  by (auto simp add: on_async_done_def Let_def prims split: option.splits)

theorem C3_witness:
  "\<exists>c'. bus_cb (scenario_env (2255 * GST_MSECOND) True (Some (205 * GST_MSECOND)))
           (GST_MESSAGE_ASYNC_DONE (Some 1)) (scenario_client\<lparr>seek_state := IN_SEEK\<rparr>) = Inr c'
        \<and> seek_state c' = DONE_SEEK
        \<and> elem_base_time c' = 2105 * GST_MSECOND"
  using C3_async_done [of "scenario_client\<lparr>seek_state := IN_SEEK\<rparr>" scenario_info
      "scenario_env (2255 * GST_MSECOND) True (Some (205 * GST_MSECOND))" "Some 1"]
  by (auto simp add: scen position_result_def)

text \<open>
  C6. When the drift exceeds the tolerance and the seek is rejected, the same run of the
  handler clears the start time, sets the base time of the pipeline to the descriptor's
  base time and writes DONE_SEEK: the handler returns in DONE_SEEK, not in IN_SEEK.
\<close>

theorem C6_seek_rejected:
  assumes "seek_state c = NEED_SEEK"
    and "pipeline c = Some p"
    and "old_state = GST_STATE_PAUSED \<or> new_state = GST_STATE_PLAYING"
    and "info c = Some d"
    and "DEFAULT_SEEK_TOLERANCE < env_clock_now e - base_time d"
    and "\<not> env_seek_ok e"
  shows "\<exists>c'. bus_cb e (GST_MESSAGE_STATE_CHANGED (Some p) old_state new_state) c = Inr c'
           \<and> elem_base_time c' = base_time d
           \<and> elem_start_time c' = GST_CLOCK_TIME_NONE
           \<and> seek_state c' = DONE_SEEK
           \<and> calls c' = calls c @
               [ClockGetTime (clock c), AtomicIntSet IN_SEEK, MutexLock,
                DebugLog GST_LEVEL_INFO ''Seeking: %lu'',
                ElementSeekSimple (Some p) {GST_SEEK_FLAG_ACCURATE, GST_SEEK_FLAG_FLUSH}
                  (env_clock_now e - base_time d + DEFAULT_SEEK_TOLERANCE),
                DebugLog GST_LEVEL_WARNING ''Could not perform seek'',
                ElementSetStartTime (Some p) GST_CLOCK_TIME_NONE,
                ElementSetBaseTime (Some p) (base_time d),
                AtomicIntSet DONE_SEEK, MutexUnlock]"
  using assms
  by (auto simp add: on_state_changed_def seek_or_set_base_time_def Let_def prims)

theorem C6_witness:
  "\<exists>c'. bus_cb (scenario_env (2050 * GST_MSECOND) False None)
           (GST_MESSAGE_STATE_CHANGED (Some 1) GST_STATE_PAUSED GST_STATE_PLAYING)
           scenario_client = Inr c'
        \<and> elem_base_time c' = 1900 * GST_MSECOND
        \<and> seek_state c' = DONE_SEEK"
  using C6_seek_rejected [of scenario_client 1 GST_STATE_PAUSED GST_STATE_PLAYING
      scenario_info "scenario_env (2050 * GST_MSECOND) False None"]
  by (auto simp add: scen)

lemma update_pipeline_result:
  assumes "info c = Some i"
  shows "update_pipeline e c =
           Inr (c\<lparr>seek_state :=
                    (case paused_result e c of
                       GST_STATE_CHANGE_FAILURE \<Rightarrow>
                         if env_is_live_uninit e then DONE_SEEK else NEED_SEEK
                     | GST_STATE_CHANGE_NO_PREROLL \<Rightarrow> DONE_SEEK
                     | GST_STATE_CHANGE_SUCCESS \<Rightarrow> NEED_SEEK
                     | GST_STATE_CHANGE_ASYNC \<Rightarrow> NEED_SEEK),
                  calls := calls c @
                    [ObjectSetUri (pipeline c) (uri i),
                     PipelineSetLatency (pipeline c) (latency i),
                     ElementSetState (pipeline c) GST_STATE_PAUSED] @
                    (case paused_result e c of
                       GST_STATE_CHANGE_FAILURE \<Rightarrow>
                         [DebugLog GST_LEVEL_WARNING ''Could not play uri'']
                     | GST_STATE_CHANGE_NO_PREROLL \<Rightarrow>
                         [DebugLog GST_LEVEL_DEBUG ''Detected live pipeline'']
                     | GST_STATE_CHANGE_SUCCESS \<Rightarrow> []
                     | GST_STATE_CHANGE_ASYNC \<Rightarrow> []) @
                    [AtomicIntSet
                       (case paused_result e c of
                          GST_STATE_CHANGE_FAILURE \<Rightarrow>
                            if env_is_live_uninit e then DONE_SEEK else NEED_SEEK
                        | GST_STATE_CHANGE_NO_PREROLL \<Rightarrow> DONE_SEEK
                        | GST_STATE_CHANGE_SUCCESS \<Rightarrow> NEED_SEEK
                        | GST_STATE_CHANGE_ASYNC \<Rightarrow> NEED_SEEK),
                     ElementSetState (pipeline c) GST_STATE_PLAYING]\<rparr>)"
  using assms
  by (cases "env_paused_ret e")
     (simp_all add: update_pipeline_def classify_def Let_def emit_def g_atomic_int_set_def
        gst_element_set_state_def paused_result_def)

text \<open>
  C7. A descriptor that arrives while one is stored: when its uri and base time equal
  the stored ones, the client is left as it was (the mutex is taken and released, and
  nothing else is called or written); otherwise the pipeline is first asked for the NULL
  state, the stored descriptor is freed and replaced by the new one, and
  \<open>update_pipeline\<close> then runs on the client that holds the new descriptor, so that
  the uri and latency it sets and the PAUSED and PLAYING requests it makes all follow
  the NULL request.
\<close>

theorem C7_descriptor_diff:
  assumes "info c = Some old"
  shows "if uri old = uri new \<and> base_time old = base_time new
         then update_sync_info e new c = Inr (c\<lparr>calls := calls c @ [MutexLock, MutexUnlock]\<rparr>)
         else (\<exists>c4 mid. update_pipeline e
                       (c\<lparr>calls := calls c @
                            [MutexLock, ElementSetState (pipeline c) GST_STATE_NULL,
                             InfoFree old],
                          info := Some new\<rparr>) = Inr c4
                 \<and> update_sync_info e new c = Inr (emit MutexUnlock c4)
                 \<and> info c4 = Some new
                 \<and> calls c4 = calls c @
                     [MutexLock, ElementSetState (pipeline c) GST_STATE_NULL, InfoFree old,
                      ObjectSetUri (pipeline c) (uri new),
                      PipelineSetLatency (pipeline c) (latency new),
                      ElementSetState (pipeline c) GST_STATE_PAUSED] @ mid @
                     [AtomicIntSet (seek_state c4),
                      ElementSetState (pipeline c) GST_STATE_PLAYING]
                 \<and> filter is_set_state mid = [])"
proof (cases "uri old = uri new \<and> base_time old = base_time new")
  case True
  with assms show ?thesis
    by (simp add: update_sync_info_def Let_def emit_def)
next
  case False
  let ?c3 = "c\<lparr>calls := calls c @
                 [MutexLock, ElementSetState (pipeline c) GST_STATE_NULL, InfoFree old],
               info := Some new\<rparr>"
  have i3: "info ?c3 = Some new" by simp
  have sync: "update_sync_info e new c =
      (case update_pipeline e ?c3 of Inl x \<Rightarrow> Inl x | Inr c4 \<Rightarrow> Inr (emit MutexUnlock c4))"
    using assms False
    by (auto simp add: update_sync_info_def Let_def emit_def gst_element_set_state_def)
  show ?thesis
    unfolding if_not_P [OF False]
    using sync
    by (cases "paused_result e ?c3")
       (simp_all add: update_pipeline_result [OF i3])
qed

theorem C7_witness:
  "update_sync_info (scenario_env 0 True None) same_info scenario_client
     = Inr (scenario_client\<lparr>calls := calls scenario_client @ [MutexLock, MutexUnlock]\<rparr>)
   \<and> (\<exists>c'. update_sync_info (scenario_env 0 True None) changed_info scenario_client = Inr c'
         \<and> info c' = Some changed_info
         \<and> calls c' = calls scenario_client @
             [MutexLock, ElementSetState (Some 1) GST_STATE_NULL, InfoFree scenario_info,
              ObjectSetUri (Some 1) ''http://example.org/b.ogg'',
              PipelineSetLatency (Some 1) 0,
              ElementSetState (Some 1) GST_STATE_PAUSED,
              AtomicIntSet NEED_SEEK,
              ElementSetState (Some 1) GST_STATE_PLAYING, MutexUnlock])"
proof -
  have h: "info scenario_client = Some scenario_info" by (simp add: scen)
  have a: "uri scenario_info = uri same_info \<and> base_time scenario_info = base_time same_info"
    by (simp add: same_info_def)
  have b: "uri scenario_info \<noteq> uri changed_info"
    by (simp add: changed_info_def scenario_info_def)
  from C7_descriptor_diff [OF h, of same_info "scenario_env 0 True None"] a
  have 1: "update_sync_info (scenario_env 0 True None) same_info scenario_client
     = Inr (scenario_client\<lparr>calls := calls scenario_client @ [MutexLock, MutexUnlock]\<rparr>)"
    by simp
  from C7_descriptor_diff [OF h, of changed_info "scenario_env 0 True None"] b
  obtain c4 where c4: "update_pipeline (scenario_env 0 True None)
                       (scenario_client\<lparr>calls := calls scenario_client @
                            [MutexLock, ElementSetState (pipeline scenario_client) GST_STATE_NULL,
                             InfoFree scenario_info],
                          info := Some changed_info\<rparr>) = Inr c4"
     "update_sync_info (scenario_env 0 True None) changed_info scenario_client
        = Inr (emit MutexUnlock c4)" "info c4 = Some changed_info"
    by auto
  from c4(1) have "calls c4 = calls scenario_client @
             [MutexLock, ElementSetState (Some 1) GST_STATE_NULL, InfoFree scenario_info,
              ObjectSetUri (Some 1) ''http://example.org/b.ogg'',
              PipelineSetLatency (Some 1) 0,
              ElementSetState (Some 1) GST_STATE_PAUSED,
              AtomicIntSet NEED_SEEK,
              ElementSetState (Some 1) GST_STATE_PLAYING]"
    by (auto simp add: update_pipeline_def classify_def Let_def prims scen changed_info_def)
  with c4 1 show ?thesis by (simp add: emit_def)
qed

text \<open>
  C4 (the failure case). When the PAUSED request fails, \<open>update_pipeline\<close> logs the
  warning, leaves the switch, writes the seek state from the unassigned \<open>is_live\<close>
  (DONE_SEEK when that happens to be true) and requests PLAYING all the same.
\<close>

theorem C4_paused_failure_requests_playing:
  assumes "info c = Some i"
    and "paused_result e c = GST_STATE_CHANGE_FAILURE"
  shows "\<exists>c'. update_pipeline e c = Inr c'
           \<and> seek_state c' = (if env_is_live_uninit e then DONE_SEEK else NEED_SEEK)
           \<and> calls c' = calls c @
               [ObjectSetUri (pipeline c) (uri i),
                PipelineSetLatency (pipeline c) (latency i),
                ElementSetState (pipeline c) GST_STATE_PAUSED,
                DebugLog GST_LEVEL_WARNING ''Could not play uri'',
                AtomicIntSet (if env_is_live_uninit e then DONE_SEEK else NEED_SEEK),
                ElementSetState (pipeline c) GST_STATE_PLAYING]"
  using assms
  by (simp add: update_pipeline_result)

theorem C4_witness:
  "\<exists>c'. update_pipeline failing_env scenario_client = Inr c'
        \<and> seek_state c' = NEED_SEEK
        \<and> calls c' = calls scenario_client @
            [ObjectSetUri (Some 1) ''http://example.org/a.ogg'',
             PipelineSetLatency (Some 1) 0,
             ElementSetState (Some 1) GST_STATE_PAUSED,
             DebugLog GST_LEVEL_WARNING ''Could not play uri'',
             AtomicIntSet NEED_SEEK,
             ElementSetState (Some 1) GST_STATE_PLAYING]"
  using C4_paused_failure_requests_playing [of scenario_client scenario_info failing_env]
  by (auto simp add: scen failing_env_def paused_result_def)

text \<open>
  C5 (a state-changed message that is not a change to PLAYING). In NEED_SEEK, a message
  of the client's own pipeline that reports PAUSED to READY passes the guard
  \<open>old_state != PAUSED && new_state != PLAYING\<close>: the handler sets the base time of
  the pipeline and moves the seek state to DONE_SEEK.
\<close>

theorem C5_paused_to_ready_fires:
  "\<exists>c'. bus_cb (scenario_env (1920 * GST_MSECOND) True None)
           (GST_MESSAGE_STATE_CHANGED (Some 1) GST_STATE_PAUSED GST_STATE_READY)
           scenario_client = Inr c'
        \<and> seek_state scenario_client = NEED_SEEK
        \<and> seek_state c' = DONE_SEEK
        \<and> elem_base_time scenario_client = 0
        \<and> elem_base_time c' = 1900 * GST_MSECOND
        \<and> calls c' = calls scenario_client @
            [ClockGetTime (Some 2), AtomicIntSet IN_SEEK, MutexLock,
             ElementSetStartTime (Some 1) GST_CLOCK_TIME_NONE,
             ElementSetBaseTime (Some 1) (1900 * GST_MSECOND),
             AtomicIntSet DONE_SEEK, MutexUnlock]"
  by (simp add: on_state_changed_def seek_or_set_base_time_def Let_def prims scen)

text \<open>
  C8 (as stated). After the first descriptor, a clock-statistics element message is
  not delivered to \<open>bus_cb\<close> synchronously; it reaches it through the bus watch.
\<close>

theorem C8_statistics_not_synchronous:
  "\<exists>c'. update_sync_info (scenario_env 0 True None) scenario_info
           (gst_sync_client_new (Some ''127.0.0.1'') 3695 (Some 1)) = Inr c'
        \<and> \<not> delivered_sync c' statistics_message
        \<and> delivered_async c' statistics_message"
  by (simp add: update_sync_info_def first_sync_info_def Let_def prims scen
      delivered_sync_def delivered_async_def statistics_message_def
      gst_message_type_get_name_def)

text \<open>
  C8 (amended). The subscription installed on the first descriptor connects \<open>bus_cb\<close>
  to the synchronous signal for async-done messages only: a message is delivered
  synchronously exactly when it is an async-done message, and every message, the
  clock statistics included, is delivered through the asynchronous bus watch.
\<close>

theorem C8_only_async_done_synchronous:
  assumes "info c = None"
    and "pipeline c = Some p"
    and "bus_sync_handlers c = []"
  shows "\<exists>c'. update_sync_info e new c = Inr c'
           \<and> bus_sync_handlers c' = [''sync-message::async-done'']
           \<and> (\<forall>m. delivered_sync c' m = is_async_done m)
           \<and> (\<forall>m. delivered_async c' m)"
proof -
  have names: "delivered_sync c' m = is_async_done m"
    if "bus_sync_emission c'" and "bus_sync_handlers c' = [''sync-message::async-done'']"
    for c' m
    using that
    by (cases m) (simp_all add: delivered_sync_def gst_message_type_get_name_def)
  show ?thesis
    using assms
    by (auto simp add: update_sync_info_def first_sync_info_def Let_def emit_def
        delivered_async_def intro!: names)
qed

theorem C8_witness:
  "\<exists>c'. update_sync_info (scenario_env 0 True None) scenario_info
           (gst_sync_client_new (Some ''127.0.0.1'') 3695 (Some 1)) = Inr c'
        \<and> bus_sync_handlers c' = [''sync-message::async-done'']
        \<and> delivered_sync c' (GST_MESSAGE_ASYNC_DONE (Some 1))
        \<and> \<not> delivered_sync c' (GST_MESSAGE_STATE_CHANGED (Some 1) GST_STATE_PAUSED GST_STATE_PLAYING)"
  using C8_only_async_done_synchronous [of "gst_sync_client_new (Some ''127.0.0.1'') 3695 (Some 1)"
      1 "scenario_env 0 True None" scenario_info]
  by (auto simp add: scen)

text \<open>
  C9 (as stated). \<open>gst_sync_client_stop\<close> on a client that holds a clock, a pipeline
  and a descriptor releases none of them, and a second call emits the signal again.
\<close>

theorem C9_stop_releases_nothing:
  "clock (gst_sync_client_stop scenario_client) = Some 2
   \<and> pipeline (gst_sync_client_stop scenario_client) = Some 1
   \<and> info (gst_sync_client_stop scenario_client) = Some scenario_info
   \<and> calls (gst_sync_client_stop scenario_client)
       = calls scenario_client @ [SignalEmit (Some 3) ''stop'']
   \<and> calls (gst_sync_client_stop (gst_sync_client_stop scenario_client))
       \<noteq> calls (gst_sync_client_stop scenario_client)"
  by (simp add: gst_sync_client_stop_def emit_def scen)

text \<open>
  C9 (amended). \<open>gst_sync_client_stop\<close> emits the "stop" signal on the control client
  and does nothing else: every field of the client is as before, after one call and
  after two. The pipeline, the clock, the descriptor and the control client are released
  by \<open>gst_sync_client_dispose\<close>, which drops one reference of each object the client
  holds and sets the pointers to NULL.
\<close>

theorem C9_stop_and_dispose:
  "gst_sync_client_stop c = c\<lparr>calls := calls c @ [SignalEmit (client c) ''stop'']\<rparr>
   \<and> gst_sync_client_stop (gst_sync_client_stop c)
       = c\<lparr>calls := calls c @ [SignalEmit (client c) ''stop'', SignalEmit (client c) ''stop'']\<rparr>
   \<and> pipeline (gst_sync_client_dispose c) = None
   \<and> clock (gst_sync_client_dispose c) = None
   \<and> info (gst_sync_client_dispose c) = None
   \<and> client (gst_sync_client_dispose c) = None
   \<and> filter is_unref (calls (gst_sync_client_dispose c))
       = filter is_unref (calls c) @
         map ObjectUnref (List.map_filter id [pipeline c, clock c, client c])"
  by (simp add: gst_sync_client_stop_def gst_sync_client_dispose_def emit_def Let_def
      List.map_filter_def split: option.splits)

text \<open>
  C10 (as stated). With the clock at 10 ms and a base time 20 ms below \<open>2 ^ 64\<close>, the
  clock is behind the base time, the difference wraps to 30 ms, which is within the
  tolerance, and the handler sets the base time without seeking.
\<close>

theorem C10_clock_behind_small_wrap:
  "env_clock_now (scenario_env (10 * GST_MSECOND) True None) < - (20 * GST_MSECOND)
   \<and> env_clock_now (scenario_env (10 * GST_MSECOND) True None) - (- (20 * GST_MSECOND))
       = 30 * GST_MSECOND
   \<and> (\<exists>c'. bus_cb (scenario_env (10 * GST_MSECOND) True None)
           (GST_MESSAGE_STATE_CHANGED (Some 1) GST_STATE_PAUSED GST_STATE_PLAYING)
           behind_client = Inr c'
        \<and> seek_state c' = DONE_SEEK
        \<and> elem_base_time c' = - (20 * GST_MSECOND)
        \<and> filter is_seek (calls c') = [])"
  by (simp add: on_state_changed_def seek_or_set_base_time_def Let_def prims scen
      behind_client_def)

text \<open>
  C10 (amended). When the clock is behind the base time by less than \<open>2 ^ 64\<close> ns
  minus the tolerance of 50 ms, the difference \<open>now - base_time\<close> wraps to
  \<open>2 ^ 64 - (base_time - now)\<close>, which exceeds the tolerance, and the handler issues
  the seek to the wrapped difference plus the tolerance.
\<close>

theorem C10_clock_behind_seeks:
  assumes "seek_state c = NEED_SEEK"
    and "old_state = GST_STATE_PAUSED \<or> new_state = GST_STATE_PLAYING"
    and "info c = Some d"
    and "env_clock_now e < base_time d"
    and "unat (base_time d) - unat (env_clock_now e) < 2 ^ 64 - 50000000"
  shows "unat (env_clock_now e - base_time d)
           = 2 ^ 64 - (unat (base_time d) - unat (env_clock_now e))
         \<and> DEFAULT_SEEK_TOLERANCE < env_clock_now e - base_time d
         \<and> (\<exists>c' rest.
               bus_cb e (GST_MESSAGE_STATE_CHANGED (pipeline c) old_state new_state) c = Inr c'
             \<and> calls c' = calls c @
                 [ClockGetTime (clock c), AtomicIntSet IN_SEEK, MutexLock,
                  DebugLog GST_LEVEL_INFO ''Seeking: %lu'',
                  ElementSeekSimple (pipeline c) {GST_SEEK_FLAG_ACCURATE, GST_SEEK_FLAG_FLUSH}
                    (env_clock_now e - base_time d + DEFAULT_SEEK_TOLERANCE)] @ rest)"
proof -
  let ?n = "env_clock_now e" and ?b = "base_time d"
  have lt: "unat ?n < unat ?b"
    using assms(4) by (simp add: word_less_nat_alt)
  have bb: "unat ?b < 2 ^ 64"
    using unsigned_less [of ?b] by simp
  have wrap: "unat (?n - ?b) = 2 ^ 64 - (unat ?b - unat ?n)"
    using lt bb by (simp add: unat_sub_if_size word_size)
  have tol: "unat DEFAULT_SEEK_TOLERANCE = 50000000"
    by (simp add: DEFAULT_SEEK_TOLERANCE_def GST_MSECOND_def)
  have gt: "DEFAULT_SEEK_TOLERANCE < ?n - ?b"
    unfolding word_less_nat_alt wrap tol using assms(5) lt by simp
  have run: "\<exists>c' rest.
               bus_cb e (GST_MESSAGE_STATE_CHANGED (pipeline c) old_state new_state) c = Inr c'
             \<and> calls c' = calls c @
                 [ClockGetTime (clock c), AtomicIntSet IN_SEEK, MutexLock,
                  DebugLog GST_LEVEL_INFO ''Seeking: %lu'',
                  ElementSeekSimple (pipeline c) {GST_SEEK_FLAG_ACCURATE, GST_SEEK_FLAG_FLUSH}
                    (?n - ?b + DEFAULT_SEEK_TOLERANCE)] @ rest"
    using assms(1-3) gt
    by (auto simp add: on_state_changed_def seek_or_set_base_time_def Let_def prims)
  from wrap gt run show ?thesis by blast
qed

theorem C10_witness:
  "\<exists>c' rest.
      bus_cb (scenario_env (1800 * GST_MSECOND) True None)
        (GST_MESSAGE_STATE_CHANGED (Some 1) GST_STATE_PAUSED GST_STATE_PLAYING)
        scenario_client = Inr c'
    \<and> calls c' = calls scenario_client @
        [ClockGetTime (Some 2), AtomicIntSet IN_SEEK, MutexLock,
         DebugLog GST_LEVEL_INFO ''Seeking: %lu'',
         ElementSeekSimple (Some 1) {GST_SEEK_FLAG_ACCURATE, GST_SEEK_FLAG_FLUSH}
           (- (50 * GST_MSECOND))] @ rest"
proof -
  let ?e = "scenario_env (1800 * GST_MSECOND) True None"
  have h1: "seek_state scenario_client = NEED_SEEK" by (simp add: scen)
  have h2: "GST_STATE_PAUSED = GST_STATE_PAUSED \<or> GST_STATE_PLAYING = GST_STATE_PLAYING"
    by simp
  have h3: "info scenario_client = Some scenario_info" by (simp add: scen)
  have h4: "env_clock_now ?e < base_time scenario_info" by (simp add: scen)
  have h5: "unat (base_time scenario_info) - unat (env_clock_now ?e) < 2 ^ 64 - 50000000"
    by (simp add: scen)
  from C10_clock_behind_seeks [OF h1 h2 h3 h4 h5]
  show ?thesis
    by (auto simp add: scen)
qed

end
